theory Spec2Isabelle
  imports Main
begin

section \<open>The Python builtins the resolvers call\<close>

text \<open>
  The three resolvers of \<^verbatim>\<open>pagination_api/paginations.py\<close> read a query parameter and
  pass it to \<^verbatim>\<open>str.isalpha\<close> and \<^verbatim>\<open>int\<close>. A Python \<^verbatim>\<open>str\<close> is modelled as a
  \<^typ>\<open>string\<close> whose characters are the code points U+0000 to U+00FF; the character
  classes below are those of Python on that range. Exceptions are values: a call that
  can raise returns \<open>exn + 'a\<close>, with \<open>Inl\<close> for the exception.
\<close>

datatype exn = KeyError | ValueError | TypeError

definition ord :: "char \<Rightarrow> nat" where
  "ord c = of_char c"

text \<open>\<^verbatim>\<open>c.isalpha()\<close> for one code point: the letters of ASCII and of Latin-1.\<close>

definition is_alpha :: "char \<Rightarrow> bool" where
  "is_alpha c =
     ((65 \<le> ord c \<and> ord c \<le> 90) \<or> (97 \<le> ord c \<and> ord c \<le> 122)
      \<or> ord c = 170 \<or> ord c = 181 \<or> ord c = 186
      \<or> (192 \<le> ord c \<and> ord c \<le> 214) \<or> (216 \<le> ord c \<and> ord c \<le> 246)
      \<or> (248 \<le> ord c \<and> ord c \<le> 255))"

text \<open>\<^verbatim>\<open>s.isalpha()\<close>: every character is a letter and there is at least one.\<close>

definition py_isalpha :: "string \<Rightarrow> bool" where
  "py_isalpha s = (s \<noteq> [] \<and> list_all is_alpha s)"

text \<open>
  The whitespace \<^verbatim>\<open>int\<close> skips around a literal: tab, line feed, vertical tab, form
  feed, carriage return, space, and the two whitespace code points U+0085 and U+00A0.
\<close>

definition is_space :: "char \<Rightarrow> bool" where
  "is_space c = ((9 \<le> ord c \<and> ord c \<le> 13) \<or> ord c = 32 \<or> ord c = 133 \<or> ord c = 160)"

definition is_digit :: "char \<Rightarrow> bool" where
  "is_digit c = (48 \<le> ord c \<and> ord c \<le> 57)"

definition digit_value :: "char \<Rightarrow> int" where
  "digit_value c = int (ord c) - 48"

definition strip :: "string \<Rightarrow> string" where
  "strip s = rev (dropWhile is_space (rev (dropWhile is_space s)))"

text \<open>One optional sign, with nothing between it and the digits.\<close>

fun split_sign :: "string \<Rightarrow> int \<times> string" where
  "split_sign [] = (1, [])"
| "split_sign (c # cs) =
     (if c = CHR ''-'' then (- 1, cs) else if c = CHR ''+'' then (1, cs) else (1, c # cs))"

text \<open>
  The body of a decimal literal: a digit, then digits each optionally preceded by one
  underscore. An underscore at either end, or two in a row, is refused.
\<close>

fun digits_ok :: "string \<Rightarrow> bool" where
  "digits_ok [] = False"
| "digits_ok [c] = is_digit c"
| "digits_ok (c # u # cs) =
     (is_digit c \<and> (if u = CHR ''_'' then digits_ok cs else digits_ok (u # cs)))"

definition decimal :: "string \<Rightarrow> int" where
  "decimal ds = foldl (\<lambda>a c. 10 * a + digit_value c) 0 ds"

text \<open>
  \<^verbatim>\<open>int(s)\<close> for a \<^verbatim>\<open>str\<close>, base 10. It raises \<^verbatim>\<open>ValueError\<close> on anything that is
  not a literal, and nothing else. Python integers are unbounded, so no literal is out
  of range; the interpreter setting \<^verbatim>\<open>sys.int_max_str_digits\<close> (\<open>max_str_digits\<close>,
  4300 by default, 0 for no limit) makes \<^verbatim>\<open>int\<close> raise \<^verbatim>\<open>ValueError\<close> on a literal
  of more digits than the limit; the check is made only above 640 digits.
\<close>

definition py_int :: "nat \<Rightarrow> string \<Rightarrow> exn + int" where
  "py_int max_str_digits s =
     (case split_sign (strip s) of
        (sign, body) \<Rightarrow>
          if digits_ok body
          then (if 640 < length (filter is_digit body) \<and> 0 < max_str_digits
                   \<and> max_str_digits < length (filter is_digit body)
                then Inl ValueError
                else Inr (sign * decimal (filter is_digit body)))
          else Inl ValueError)"

section \<open>The request and the paginator classes\<close>

text \<open>
  \<^verbatim>\<open>request.query_params\<close> maps a parameter name to the string
  \<^verbatim>\<open>query_params.get(k)\<close> returns for it (the last value when the parameter is
  repeated), and to \<^verbatim>\<open>None\<close> for a missing key.
\<close>

record request =
  query_params :: "string \<rightharpoonup> string"

text \<open>
  \<^verbatim>\<open>DefaultLimitOffsetPagination\<close>. \<open>limit_query_param\<close> is inherited from the base
  class of the framework; it is a name, or \<^verbatim>\<open>None\<close> when clients may not override
  the limit.
\<close>

record limit_offset_pagination =
  limit_query_param :: "string option"
  min_limit :: int
  max_limit :: int
  default_limit :: int

text \<open>\<^verbatim>\<open>DefaultPageNumberPagination\<close>.\<close>

record page_number_pagination =
  page_size :: int
  page_size_query_param :: "string option"
  max_page_size :: int

text \<open>\<^verbatim>\<open>DefaultCursorPagination\<close>; its attributes carry the suffix \<open>_cursor\<close>.\<close>

record cursor_pagination =
  page_size_cursor :: int
  page_size_query_param_cursor :: "string option"
  max_page_size_cursor :: int
  ordering :: string

text \<open>The classes with the attribute values the source gives them.\<close>

definition DefaultLimitOffsetPagination :: limit_offset_pagination where
  "DefaultLimitOffsetPagination =
     \<lparr>limit_query_param = Some ''limit'', min_limit = 1, max_limit = 100, default_limit = 10\<rparr>"

definition DefaultPageNumberPagination :: page_number_pagination where
  "DefaultPageNumberPagination =
     \<lparr>page_size = 10, page_size_query_param = Some ''page_size'', max_page_size = 100\<rparr>"

definition DefaultCursorPagination :: cursor_pagination where
  "DefaultCursorPagination =
     \<lparr>page_size_cursor = 10, page_size_query_param_cursor = Some ''page_size'',
      max_page_size_cursor = 100, ordering = ''-id''\<rparr>"

section \<open>The resolvers\<close>

text \<open>
  The guard \<^verbatim>\<open>if self.limit_query_param and request.query_params.get(...)\<close>: the name is
  set and not empty, and the value is present and not empty. When the guard holds, the
  value read again inside the \<^verbatim>\<open>try\<close> is the same string.
\<close>

definition param_value :: "string option \<Rightarrow> request \<Rightarrow> string option" where
  "param_value name request =
     (case name of
        None \<Rightarrow> None
      | Some k \<Rightarrow>
          if k = [] then None
          else (case query_params request k of
                  None \<Rightarrow> None
                | Some v \<Rightarrow> if v = [] then None else Some v))"

text \<open>
  \<^verbatim>\<open>except (KeyError, ValueError): pass\<close>. The body of a \<^verbatim>\<open>try\<close> yields
  \<open>Inr (Some n)\<close> when it returns \<open>n\<close>, \<open>Inr None\<close> when it falls through, and
  \<open>Inl e\<close> when it raises \<open>e\<close>; the handler turns the two exceptions it names into a
  fall-through and lets any other pass.
\<close>

definition except_pass :: "exn + int option \<Rightarrow> exn + int option" where
  "except_pass r =
     (case r of
        Inl e \<Rightarrow> if e = KeyError \<or> e = ValueError then Inr None else Inl e
      | Inr x \<Rightarrow> Inr x)"

text \<open>The body of the \<^verbatim>\<open>try\<close> in \<^verbatim>\<open>get_limit\<close>; \<^verbatim>\<open>int\<close> is called twice, as written.\<close>

definition limit_try :: "nat \<Rightarrow> 'a limit_offset_pagination_scheme \<Rightarrow> string \<Rightarrow> exn + int option" where
  "limit_try d self limit_value =
     (if py_isalpha limit_value then Inr None
      else (case py_int d limit_value of
              Inl e \<Rightarrow> Inl e
            | Inr v \<Rightarrow>
                if v > 0
                then (case py_int d limit_value of
                        Inl e \<Rightarrow> Inl e
                      | Inr w \<Rightarrow> Inr (Some (min (max w (min_limit self)) (max_limit self))))
                else Inr None))"

definition get_limit :: "nat \<Rightarrow> 'a limit_offset_pagination_scheme \<Rightarrow> request \<Rightarrow> exn + int" where
  "get_limit d self request =
     (case (case param_value (limit_query_param self) request of
              None \<Rightarrow> Inr None
            | Some limit_value \<Rightarrow> except_pass (limit_try d self limit_value)) of
        Inl e \<Rightarrow> Inl e
      | Inr (Some n) \<Rightarrow> Inr n
      | Inr None \<Rightarrow> Inr (default_limit self))"

text \<open>\<^verbatim>\<open>DefaultPageNumberPagination.get_page_size\<close>.\<close>

definition page_size_try :: "nat \<Rightarrow> 'a page_number_pagination_scheme \<Rightarrow> string \<Rightarrow> exn + int option" where
  "page_size_try d self page_size_value =
     (if py_isalpha page_size_value then Inr None
      else (case py_int d page_size_value of
              Inl e \<Rightarrow> Inl e
            | Inr v \<Rightarrow>
                if v > 0
                then (case py_int d page_size_value of
                        Inl e \<Rightarrow> Inl e
                      | Inr w \<Rightarrow> Inr (Some (min w (max_page_size self))))
                else Inr None))"

definition get_page_size :: "nat \<Rightarrow> 'a page_number_pagination_scheme \<Rightarrow> request \<Rightarrow> exn + int" where
  "get_page_size d self request =
     (case (case param_value (page_size_query_param self) request of
              None \<Rightarrow> Inr None
            | Some page_size_value \<Rightarrow> except_pass (page_size_try d self page_size_value)) of
        Inl e \<Rightarrow> Inl e
      | Inr (Some n) \<Rightarrow> Inr n
      | Inr None \<Rightarrow> Inr (page_size self))"

text \<open>\<^verbatim>\<open>DefaultCursorPagination.get_page_size\<close>.\<close>

definition page_size_try_cursor :: "nat \<Rightarrow> 'a cursor_pagination_scheme \<Rightarrow> string \<Rightarrow> exn + int option" where
  "page_size_try_cursor d self page_size_value =
     (if py_isalpha page_size_value then Inr None
      else (case py_int d page_size_value of
              Inl e \<Rightarrow> Inl e
            | Inr v \<Rightarrow>
                if v > 0
                then (case py_int d page_size_value of
                        Inl e \<Rightarrow> Inl e
                      | Inr w \<Rightarrow> Inr (Some (min w (max_page_size_cursor self))))
                else Inr None))"

definition get_page_size_cursor :: "nat \<Rightarrow> 'a cursor_pagination_scheme \<Rightarrow> request \<Rightarrow> exn + int" where
  "get_page_size_cursor d self request =
     (case (case param_value (page_size_query_param_cursor self) request of
              None \<Rightarrow> Inr None
            | Some page_size_value \<Rightarrow> except_pass (page_size_try_cursor d self page_size_value)) of
        Inl e \<Rightarrow> Inl e
      | Inr (Some n) \<Rightarrow> Inr n
      | Inr None \<Rightarrow> Inr (page_size_cursor self))"

section \<open>Paginators that also carry a minimum page size\<close>

text \<open>
  A subclass may add attributes to a paginator. These two extend the page-number and the
  cursor paginator by a minimum page size, an attribute \<^verbatim>\<open>get_page_size\<close> never
  reads; they serve to state that the result does not depend on such a setting.
\<close>

record page_number_pagination_min = page_number_pagination +
  min_page_size :: int

record cursor_pagination_min = cursor_pagination +
  min_page_size_cursor :: int

section \<open>Facts about the builtins and the shape of the resolvers\<close>

text \<open>Unfolding sets for evaluating the model at a concrete input.\<close>

lemmas char_class_defs = ord_def is_alpha_def is_space_def is_digit_def digit_value_def

lemmas py_int_eval = py_int_def strip_def decimal_def char_class_defs

lemmas resolver_eval =
  get_limit_def limit_try_def get_page_size_def page_size_try_def
  get_page_size_cursor_def page_size_try_cursor_def
  param_value_def except_pass_def py_isalpha_def py_int_eval
  DefaultLimitOffsetPagination_def DefaultPageNumberPagination_def DefaultCursorPagination_def

lemmas default_attrs =
  DefaultLimitOffsetPagination_def DefaultPageNumberPagination_def DefaultCursorPagination_def

text \<open>\<^verbatim>\<open>int\<close> raises nothing but \<^verbatim>\<open>ValueError\<close>.\<close>

lemma py_int_raises_ValueError: "py_int d s = Inl e \<Longrightarrow> e = ValueError"
  by (auto simp: py_int_def split: prod.splits if_splits)

lemma strip_id:
  assumes "s \<noteq> []" and "\<not> is_space (hd s)" and "\<not> is_space (last s)"
  shows "strip s = s"
proof -
  have a: "dropWhile is_space s = s"
    using assms(2) by (simp add: dropWhile_eq_self_iff)
  have "hd (rev s) = last s"
    using assms(1) by (simp add: hd_rev)
  then have b: "dropWhile is_space (rev s) = rev s"
    using assms(3) by (simp add: dropWhile_eq_self_iff)
  show ?thesis
    by (simp add: strip_def a b)
qed

lemma alpha_not_space: "is_alpha c \<Longrightarrow> \<not> is_space c"
  by (auto simp: is_alpha_def is_space_def)

lemma alpha_not_digit: "is_alpha c \<Longrightarrow> \<not> is_digit c"
  by (auto simp: is_alpha_def is_digit_def)

lemma alpha_not_sign: "is_alpha c \<Longrightarrow> c \<noteq> CHR ''-'' \<and> c \<noteq> CHR ''+''"
  by (auto simp: is_alpha_def ord_def)

lemma digit_not_space: "is_digit c \<Longrightarrow> \<not> is_space c"
  by (auto simp: is_digit_def is_space_def)

lemma digit_not_alpha: "is_digit c \<Longrightarrow> \<not> is_alpha c"
  by (auto simp: is_alpha_def is_digit_def)

lemma digit_not_sign: "is_digit c \<Longrightarrow> c \<noteq> CHR ''-'' \<and> c \<noteq> CHR ''+'' \<and> c \<noteq> CHR ''_''"
  by (auto simp: is_digit_def ord_def)

lemma digits_ok_starts_with_digit: "digits_ok s \<Longrightarrow> is_digit (hd s)"
  by (induction s rule: digits_ok.induct) auto

lemma py_int_isalpha:
  assumes "py_isalpha s"
  shows "py_int d s = Inl ValueError"
proof -
  from assms obtain c cs where s: "s = c # cs" and all: "list_all is_alpha s"
    by (cases s) (auto simp: py_isalpha_def)
  have c: "is_alpha c" using s all by simp
  have "is_alpha (last s)" using s all by (simp add: list_all_iff)
  then have "strip s = s"
    using s c by (intro strip_id) (auto dest: alpha_not_space)
  moreover have "split_sign s = (1, s)"
    using s alpha_not_sign[OF c] by simp
  moreover have "\<not> digits_ok s"
    using digits_ok_starts_with_digit[of s] s alpha_not_digit[OF c] by auto
  ultimately show ?thesis
    by (simp add: py_int_def)
qed

lemma all_digits_ok: "s \<noteq> [] \<Longrightarrow> list_all is_digit s \<Longrightarrow> digits_ok s"
  by (induction s rule: digits_ok.induct) (auto dest: digit_not_sign)

lemma py_int_all_digits:
  assumes "s \<noteq> []" and "list_all is_digit s"
  shows "py_int d s =
           (if 640 < length s \<and> 0 < d \<and> d < length s then Inl ValueError else Inr (decimal s))"
proof -
  from assms obtain c cs where s: "s = c # cs" by (cases s) auto
  have c: "is_digit c" using s assms(2) by simp
  have "is_digit (last s)" using assms by (simp add: list_all_iff)
  then have "strip s = s"
    using s c by (intro strip_id) (auto dest: digit_not_space)
  moreover have "split_sign s = (1, s)"
    using s digit_not_sign[OF c] by simp
  moreover have "filter is_digit s = s"
    using assms(2) by (simp add: list_all_iff)
  ultimately show ?thesis
    using all_digits_ok[OF assms] by (simp add: py_int_def)
qed

lemma get_limit_eq:
  "get_limit d self request =
     Inr (case param_value (limit_query_param self) request of
            None \<Rightarrow> default_limit self
          | Some s \<Rightarrow>
              (case py_int d s of
                 Inl e \<Rightarrow> default_limit self
               | Inr v \<Rightarrow> if 0 < v then min (max v (min_limit self)) (max_limit self)
                          else default_limit self))"
proof (cases "param_value (limit_query_param self) request")
  case None
  then show ?thesis by (simp add: get_limit_def)
next
  case (Some s)
  show ?thesis
  proof (cases "py_int d s")
    case (Inl e)
    then have "e = ValueError" by (rule py_int_raises_ValueError)
    with Some Inl show ?thesis
      by (simp add: get_limit_def limit_try_def except_pass_def)
  next
    case (Inr v)
    then have "\<not> py_isalpha s" using py_int_isalpha[of s d] by auto
    with Some Inr show ?thesis
      by (simp add: get_limit_def limit_try_def except_pass_def)
  qed
qed

lemma get_page_size_eq:
  "get_page_size d self request =
     Inr (case param_value (page_size_query_param self) request of
            None \<Rightarrow> page_size self
          | Some s \<Rightarrow>
              (case py_int d s of
                 Inl e \<Rightarrow> page_size self
               | Inr v \<Rightarrow> if 0 < v then min v (max_page_size self) else page_size self))"
proof (cases "param_value (page_size_query_param self) request")
  case None
  then show ?thesis by (simp add: get_page_size_def)
next
  case (Some s)
  show ?thesis
  proof (cases "py_int d s")
    case (Inl e)
    then have "e = ValueError" by (rule py_int_raises_ValueError)
    with Some Inl show ?thesis
      by (simp add: get_page_size_def page_size_try_def except_pass_def)
  next
    case (Inr v)
    then have "\<not> py_isalpha s" using py_int_isalpha[of s d] by auto
    with Some Inr show ?thesis
      by (simp add: get_page_size_def page_size_try_def except_pass_def)
  qed
qed

lemma get_page_size_cursor_eq:
  "get_page_size_cursor d self request =
     Inr (case param_value (page_size_query_param_cursor self) request of
            None \<Rightarrow> page_size_cursor self
          | Some s \<Rightarrow>
              (case py_int d s of
                 Inl e \<Rightarrow> page_size_cursor self
               | Inr v \<Rightarrow> if 0 < v then min v (max_page_size_cursor self)
                          else page_size_cursor self))"
proof (cases "param_value (page_size_query_param_cursor self) request")
  case None
  then show ?thesis by (simp add: get_page_size_cursor_def)
next
  case (Some s)
  show ?thesis
  proof (cases "py_int d s")
    case (Inl e)
    then have "e = ValueError" by (rule py_int_raises_ValueError)
    with Some Inl show ?thesis
      by (simp add: get_page_size_cursor_def page_size_try_cursor_def except_pass_def)
  next
    case (Inr v)
    then have "\<not> py_isalpha s" using py_int_isalpha[of s d] by auto
    with Some Inr show ?thesis
      by (simp add: get_page_size_cursor_def page_size_try_cursor_def except_pass_def)
  qed
qed


lemma param_value_None_iff:
  "param_value name req = None \<longleftrightarrow>
     (name = None \<or> name = Some [] \<or>
      (\<exists>k. name = Some k \<and> (query_params req k = None \<or> query_params req k = Some [])))"
  by (auto simp: param_value_def split: option.splits)

text \<open>
  The value of a digit string is never negative, and it is zero exactly when every digit
  is \<^verbatim>\<open>0\<close>.
\<close>

lemma ord_zero: "ord c = 48 \<longleftrightarrow> c = CHR ''0''"
proof -
  have "(of_char (CHR ''0'') :: nat) = 48"
    by simp
  then have "ord c = 48 \<longleftrightarrow> (of_char c :: nat) = of_char (CHR ''0'')"
    by (simp add: ord_def)
  then show ?thesis
    by (simp only: of_char_eq_iff)
qed

lemma digit_value_range:
  "is_digit c \<Longrightarrow> 0 \<le> digit_value c \<and> (digit_value c = 0 \<longleftrightarrow> c = CHR ''0'')"
  using ord_zero [of c] by (auto simp: is_digit_def digit_value_def)

lemma decimal_acc:
  "list_all is_digit s \<Longrightarrow> 0 \<le> a \<Longrightarrow>
     0 \<le> foldl (\<lambda>a c. 10 * a + digit_value c) a s
   \<and> (foldl (\<lambda>a c. 10 * a + digit_value c) a s = 0
        \<longleftrightarrow> a = 0 \<and> list_all (\<lambda>c. c = CHR ''0'') s)"
proof (induction s arbitrary: a)
  case Nil
  then show ?case by simp
next
  case (Cons c s)
  from Cons.prems have c: "is_digit c" and s: "list_all is_digit s"
    by simp_all
  note r = digit_value_range [OF c]
  have nn: "0 \<le> 10 * a + digit_value c"
    using r Cons.prems(2) by simp
  have z: "10 * a + digit_value c = 0 \<longleftrightarrow> a = 0 \<and> c = CHR ''0''"
    using r Cons.prems(2) by auto
  show ?case
    using Cons.IH [OF s nn] z by simp
qed

lemma decimal_nonneg: "list_all is_digit s \<Longrightarrow> 0 \<le> decimal s"
  using decimal_acc [of s 0] by (simp add: decimal_def)

lemma decimal_zero_iff:
  "list_all is_digit s \<Longrightarrow> decimal s = 0 \<longleftrightarrow> list_all (\<lambda>c. c = CHR ''0'') s"
  using decimal_acc [of s 0] by (simp add: decimal_def)

text \<open>The digits and the whitespace of the model, character by character.\<close>

lemma decimal_digit_in: "c \<in> set ''0123456789'' \<Longrightarrow> is_digit c"
  by (auto simp: is_digit_def ord_def)








lemma is_digit_iff: "is_digit c \<longleftrightarrow> c \<in> set ''0123456789''"
proof
  assume "is_digit c"
  then have "48 \<le> ord c \<and> ord c \<le> 57"
    by (simp add: is_digit_def)
  then have "ord c = 48 \<or> ord c = 49 \<or> ord c = 50 \<or> ord c = 51 \<or> ord c = 52
             \<or> ord c = 53 \<or> ord c = 54 \<or> ord c = 55 \<or> ord c = 56 \<or> ord c = 57"
    by arith
  then have "(of_char c :: nat) = of_char (CHR ''0'') \<or> (of_char c :: nat) = of_char (CHR ''1'')
             \<or> (of_char c :: nat) = of_char (CHR ''2'') \<or> (of_char c :: nat) = of_char (CHR ''3'')
             \<or> (of_char c :: nat) = of_char (CHR ''4'') \<or> (of_char c :: nat) = of_char (CHR ''5'')
             \<or> (of_char c :: nat) = of_char (CHR ''6'') \<or> (of_char c :: nat) = of_char (CHR ''7'')
             \<or> (of_char c :: nat) = of_char (CHR ''8'') \<or> (of_char c :: nat) = of_char (CHR ''9'')"
    by (simp add: ord_def)
  then have "c = CHR ''0'' \<or> c = CHR ''1'' \<or> c = CHR ''2'' \<or> c = CHR ''3'' \<or> c = CHR ''4''
             \<or> c = CHR ''5'' \<or> c = CHR ''6'' \<or> c = CHR ''7'' \<or> c = CHR ''8'' \<or> c = CHR ''9''"
    by (simp only: of_char_eq_iff)
  then show "c \<in> set ''0123456789''"
    by auto
next
  assume "c \<in> set ''0123456789''"
  then show "is_digit c" by (rule decimal_digit_in)
qed

lemma digits_subset: "set s \<subseteq> set ''0123456789'' \<Longrightarrow> list_all is_digit s"
  unfolding list_all_iff using decimal_digit_in by blast


section \<open>The claims\<close>

text \<open>
  C1. When the configured default lies between the bounds, every request resolves to a
  size within them: \<open>get_limit\<close> returns an integer in \<open>[min_limit, max_limit]\<close>, and
  both \<open>get_page_size\<close> methods return an integer in \<open>[1, max_page_size]\<close>, whatever
  the request holds and whatever the interpreter's digit limit \<open>d\<close> is.
\<close>
theorem resolved_size_within_bounds:
  assumes "min_limit lo \<le> default_limit lo" and "default_limit lo \<le> max_limit lo"
    and "1 \<le> page_size pn" and "page_size pn \<le> max_page_size pn"
    and "1 \<le> page_size_cursor cu" and "page_size_cursor cu \<le> max_page_size_cursor cu"
  shows "(\<exists>n. get_limit d lo req = Inr n \<and> min_limit lo \<le> n \<and> n \<le> max_limit lo)
       \<and> (\<exists>n. get_page_size d pn req = Inr n \<and> 1 \<le> n \<and> n \<le> max_page_size pn)
       \<and> (\<exists>n. get_page_size_cursor d cu req = Inr n \<and> 1 \<le> n \<and> n \<le> max_page_size_cursor cu)"
proof (intro conjI)
  show "\<exists>n. get_limit d lo req = Inr n \<and> min_limit lo \<le> n \<and> n \<le> max_limit lo"
    using assms(1,2) by (simp add: get_limit_eq split: option.splits sum.splits)
  show "\<exists>n. get_page_size d pn req = Inr n \<and> 1 \<le> n \<and> n \<le> max_page_size pn"
    using assms(3,4) by (simp add: get_page_size_eq split: option.splits sum.splits)
  show "\<exists>n. get_page_size_cursor d cu req = Inr n \<and> 1 \<le> n \<and> n \<le> max_page_size_cursor cu"
    using assms(5,6) by (simp add: get_page_size_cursor_eq split: option.splits sum.splits)
qed

text \<open>The classes as the source configures them meet the invariant; a request for 9999.\<close>
theorem resolved_size_within_bounds_witness:
  "min_limit DefaultLimitOffsetPagination \<le> default_limit DefaultLimitOffsetPagination
   \<and> default_limit DefaultLimitOffsetPagination \<le> max_limit DefaultLimitOffsetPagination
   \<and> 1 \<le> page_size DefaultPageNumberPagination
   \<and> page_size DefaultPageNumberPagination \<le> max_page_size DefaultPageNumberPagination
   \<and> 1 \<le> page_size_cursor DefaultCursorPagination
   \<and> page_size_cursor DefaultCursorPagination \<le> max_page_size_cursor DefaultCursorPagination
   \<and> (\<exists>n. get_limit 4300 DefaultLimitOffsetPagination
              \<lparr>query_params = [''limit'' \<mapsto> ''9999'']\<rparr> = Inr n
          \<and> min_limit DefaultLimitOffsetPagination \<le> n
          \<and> n \<le> max_limit DefaultLimitOffsetPagination)
   \<and> (\<exists>n. get_page_size 4300 DefaultPageNumberPagination
              \<lparr>query_params = [''limit'' \<mapsto> ''9999'']\<rparr> = Inr n
          \<and> 1 \<le> n \<and> n \<le> max_page_size DefaultPageNumberPagination)
   \<and> (\<exists>n. get_page_size_cursor 4300 DefaultCursorPagination
              \<lparr>query_params = [''limit'' \<mapsto> ''9999'']\<rparr> = Inr n
          \<and> 1 \<le> n \<and> n \<le> max_page_size_cursor DefaultCursorPagination)"
proof -
  have h1: "min_limit DefaultLimitOffsetPagination \<le> default_limit DefaultLimitOffsetPagination"
    and h2: "default_limit DefaultLimitOffsetPagination \<le> max_limit DefaultLimitOffsetPagination"
    by (simp_all add: DefaultLimitOffsetPagination_def)
  have h3: "1 \<le> page_size DefaultPageNumberPagination"
    and h4: "page_size DefaultPageNumberPagination \<le> max_page_size DefaultPageNumberPagination"
    by (simp_all add: DefaultPageNumberPagination_def)
  have h5: "1 \<le> page_size_cursor DefaultCursorPagination"
    and h6: "page_size_cursor DefaultCursorPagination \<le> max_page_size_cursor DefaultCursorPagination"
    by (simp_all add: DefaultCursorPagination_def)
  note t = resolved_size_within_bounds [OF h1 h2 h3 h4 h5 h6,
      where d = 4300 and req = "\<lparr>query_params = [''limit'' \<mapsto> ''9999'']\<rparr>"]
  show ?thesis
    using h1 h2 h3 h4 h5 h6 t by blast
qed

text \<open>
  C2. No resolver raises: for every paginator, every request and every digit limit, each
  of the three returns an integer. The functions are total, so each call also ends.
\<close>
theorem resolvers_never_raise:
  "(\<exists>n. get_limit d lo req = Inr n)
   \<and> (\<exists>n. get_page_size d pn req = Inr n)
   \<and> (\<exists>n. get_page_size_cursor d cu req = Inr n)"
  by (simp add: get_limit_eq get_page_size_eq get_page_size_cursor_eq)

text \<open>A 30-digit number, a negative number and a string that is no number.\<close>
theorem resolvers_never_raise_witness:
  "(\<exists>n. get_limit 4300 DefaultLimitOffsetPagination
            \<lparr>query_params = [''limit'' \<mapsto> ''123456789012345678901234567890'']\<rparr> = Inr n)
   \<and> (\<exists>n. get_page_size 4300 DefaultPageNumberPagination
            \<lparr>query_params = [''page_size'' \<mapsto> ''-5'']\<rparr> = Inr n)
   \<and> (\<exists>n. get_page_size_cursor 4300 DefaultCursorPagination
            \<lparr>query_params = [''page_size'' \<mapsto> ''x1.5e9'']\<rparr> = Inr n)"
  using resolvers_never_raise
          [where d = 4300 and lo = DefaultLimitOffsetPagination
             and req = "\<lparr>query_params = [''limit'' \<mapsto> ''123456789012345678901234567890'']\<rparr>"]
        resolvers_never_raise
          [where d = 4300 and pn = DefaultPageNumberPagination
             and req = "\<lparr>query_params = [''page_size'' \<mapsto> ''-5'']\<rparr>"]
        resolvers_never_raise
          [where d = 4300 and cu = DefaultCursorPagination
             and req = "\<lparr>query_params = [''page_size'' \<mapsto> ''x1.5e9'']\<rparr>"]
  by blast

text \<open>
  C3. A raw value that parses to an integer \<open>v \<le> 0\<close> makes each of the three resolvers
  return its default; the value is not raised to the minimum.
\<close>
theorem non_positive_gives_default:
  assumes "param_value name req = Some s" and "py_int d s = Inr v" and "v \<le> 0"
  shows "(limit_query_param lo = name \<longrightarrow> get_limit d lo req = Inr (default_limit lo))
       \<and> (page_size_query_param pn = name \<longrightarrow> get_page_size d pn req = Inr (page_size pn))
       \<and> (page_size_query_param_cursor cu = name \<longrightarrow>
            get_page_size_cursor d cu req = Inr (page_size_cursor cu))"
  using assms by (simp add: get_limit_eq get_page_size_eq get_page_size_cursor_eq)

text \<open>The values \<^verbatim>\<open>-5\<close> and \<^verbatim>\<open>0\<close>.\<close>
theorem non_positive_gives_default_witness:
  "param_value (Some ''limit'') \<lparr>query_params = [''limit'' \<mapsto> ''-5'']\<rparr> = Some ''-5''
   \<and> py_int 4300 ''-5'' = Inr (- 5) \<and> (- 5 :: int) \<le> 0
   \<and> get_limit 4300 DefaultLimitOffsetPagination \<lparr>query_params = [''limit'' \<mapsto> ''-5'']\<rparr> = Inr 10
   \<and> param_value (Some ''page_size'') \<lparr>query_params = [''page_size'' \<mapsto> ''0'']\<rparr> = Some ''0''
   \<and> py_int 4300 ''0'' = Inr 0 \<and> (0 :: int) \<le> 0
   \<and> get_page_size 4300 DefaultPageNumberPagination
        \<lparr>query_params = [''page_size'' \<mapsto> ''0'']\<rparr> = Inr 10
   \<and> get_page_size_cursor 4300 DefaultCursorPagination
        \<lparr>query_params = [''page_size'' \<mapsto> ''0'']\<rparr> = Inr 10"
proof -
  have a1: "param_value (Some ''limit'') \<lparr>query_params = [''limit'' \<mapsto> ''-5'']\<rparr> = Some ''-5''"
    by (simp add: param_value_def)
  have a2: "py_int 4300 ''-5'' = Inr (- 5)"
    by (simp add: py_int_eval)
  have a3: "(- 5 :: int) \<le> 0"
    by simp
  have b1: "param_value (Some ''page_size'') \<lparr>query_params = [''page_size'' \<mapsto> ''0'']\<rparr> = Some ''0''"
    by (simp add: param_value_def)
  have b2: "py_int 4300 ''0'' = Inr 0"
    by (simp add: py_int_eval)
  have b3: "(0 :: int) \<le> 0"
    by simp
  have names: "limit_query_param DefaultLimitOffsetPagination = Some ''limit''"
    "page_size_query_param DefaultPageNumberPagination = Some ''page_size''"
    "page_size_query_param_cursor DefaultCursorPagination = Some ''page_size''"
    "default_limit DefaultLimitOffsetPagination = 10"
    "page_size DefaultPageNumberPagination = 10"
    "page_size_cursor DefaultCursorPagination = 10"
    by (simp_all add: DefaultLimitOffsetPagination_def DefaultPageNumberPagination_def
        DefaultCursorPagination_def)
  note ta = non_positive_gives_default [OF a1 a2 a3,
      where lo = DefaultLimitOffsetPagination
        and pn = DefaultPageNumberPagination and cu = DefaultCursorPagination]
  note tb = non_positive_gives_default [OF b1 b2 b3,
      where lo = DefaultLimitOffsetPagination
        and pn = DefaultPageNumberPagination and cu = DefaultCursorPagination]
  show ?thesis
    using a1 a2 b1 b2 ta tb names by simp
qed


text \<open>
  C4. When the parameter name is not configured (\<^verbatim>\<open>None\<close> or empty), or the request
  has no such parameter, or its value is the empty string, each of the three resolvers
  returns its default.
\<close>
theorem no_override_gives_default:
  assumes "name = None \<or> name = Some []
           \<or> (\<exists>k. name = Some k \<and> (query_params req k = None \<or> query_params req k = Some []))"
  shows "(limit_query_param lo = name \<longrightarrow> get_limit d lo req = Inr (default_limit lo))
       \<and> (page_size_query_param pn = name \<longrightarrow> get_page_size d pn req = Inr (page_size pn))
       \<and> (page_size_query_param_cursor cu = name \<longrightarrow>
            get_page_size_cursor d cu req = Inr (page_size_cursor cu))"
proof -
  from assms have "param_value name req = None"
    by (simp add: param_value_None_iff)
  then show ?thesis
    by (simp add: get_limit_eq get_page_size_eq get_page_size_cursor_eq)
qed

text \<open>A paginator without a parameter name, an empty request, an empty value.\<close>
theorem no_override_gives_default_witness:
  "get_limit 4300 (DefaultLimitOffsetPagination\<lparr>limit_query_param := None\<rparr>)
     \<lparr>query_params = [''limit'' \<mapsto> ''50'']\<rparr> = Inr 10
   \<and> get_limit 4300 DefaultLimitOffsetPagination \<lparr>query_params = Map.empty\<rparr> = Inr 10
   \<and> get_page_size 4300 DefaultPageNumberPagination
        \<lparr>query_params = [''page_size'' \<mapsto> []]\<rparr> = Inr 10
   \<and> get_page_size_cursor 4300 DefaultCursorPagination
        \<lparr>query_params = [''page_size'' \<mapsto> []]\<rparr> = Inr 10"
proof -
  have a: "(None :: string option) = None \<or> None = Some []
           \<or> (\<exists>k. None = Some k \<and> (query_params \<lparr>query_params = [''limit'' \<mapsto> ''50'']\<rparr> k = None
                  \<or> query_params \<lparr>query_params = [''limit'' \<mapsto> ''50'']\<rparr> k = Some []))"
    by simp
  have b: "Some ''limit'' = None \<or> Some ''limit'' = Some []
           \<or> (\<exists>k. Some ''limit'' = Some k \<and> (query_params \<lparr>query_params = Map.empty\<rparr> k = None
                  \<or> query_params \<lparr>query_params = Map.empty\<rparr> k = Some []))"
    by simp
  have c: "Some ''page_size'' = None \<or> Some ''page_size'' = Some []
           \<or> (\<exists>k. Some ''page_size'' = Some k
                \<and> (query_params \<lparr>query_params = [''page_size'' \<mapsto> []]\<rparr> k = None
                  \<or> query_params \<lparr>query_params = [''page_size'' \<mapsto> []]\<rparr> k = Some []))"
    by simp
  note ta = no_override_gives_default [OF a,
      where lo = "DefaultLimitOffsetPagination\<lparr>limit_query_param := None\<rparr>" and d = 4300
        and pn = DefaultPageNumberPagination and cu = DefaultCursorPagination]
  note tb = no_override_gives_default [OF b,
      where lo = DefaultLimitOffsetPagination and d = 4300
        and pn = DefaultPageNumberPagination and cu = DefaultCursorPagination]
  note tc = no_override_gives_default [OF c,
      where lo = DefaultLimitOffsetPagination and d = 4300
        and pn = DefaultPageNumberPagination and cu = DefaultCursorPagination]
  show ?thesis
    using ta tb tc by (simp add: default_attrs)
qed

text \<open>
  C5. A raw value made of letters only, or one that \<^verbatim>\<open>int\<close> refuses, makes each of
  the three resolvers return its default.
\<close>
theorem unparsable_gives_default:
  assumes "param_value name req = Some s"
    and "py_isalpha s \<or> (\<exists>e. py_int d s = Inl e)"
  shows "(limit_query_param lo = name \<longrightarrow> get_limit d lo req = Inr (default_limit lo))
       \<and> (page_size_query_param pn = name \<longrightarrow> get_page_size d pn req = Inr (page_size pn))
       \<and> (page_size_query_param_cursor cu = name \<longrightarrow>
            get_page_size_cursor d cu req = Inr (page_size_cursor cu))"
proof -
  from assms(2) obtain e where "py_int d s = Inl e"
    using py_int_isalpha [of s d] by auto
  with assms(1) show ?thesis
    by (simp add: get_limit_eq get_page_size_eq get_page_size_cursor_eq)
qed

text \<open>The values \<^verbatim>\<open>abc\<close> (letters only) and \<^verbatim>\<open>0.5\<close> (refused, not truncated).\<close>
theorem unparsable_gives_default_witness:
  "py_isalpha ''abc'' \<and> py_int 4300 ''0.5'' = Inl ValueError
   \<and> get_limit 4300 DefaultLimitOffsetPagination \<lparr>query_params = [''limit'' \<mapsto> ''abc'']\<rparr> = Inr 10
   \<and> get_limit 4300 DefaultLimitOffsetPagination \<lparr>query_params = [''limit'' \<mapsto> ''0.5'']\<rparr> = Inr 10
   \<and> get_page_size 4300 DefaultPageNumberPagination
        \<lparr>query_params = [''page_size'' \<mapsto> ''0.5'']\<rparr> = Inr 10
   \<and> get_page_size_cursor 4300 DefaultCursorPagination
        \<lparr>query_params = [''page_size'' \<mapsto> ''0.5'']\<rparr> = Inr 10"
proof -
  have a1: "param_value (Some ''limit'') \<lparr>query_params = [''limit'' \<mapsto> ''abc'']\<rparr> = Some ''abc''"
    by (simp add: param_value_def)
  have a2: "py_isalpha ''abc''"
    by (simp add: py_isalpha_def char_class_defs)
  have b1: "param_value (Some ''limit'') \<lparr>query_params = [''limit'' \<mapsto> ''0.5'']\<rparr> = Some ''0.5''"
    by (simp add: param_value_def)
  have b2: "py_int 4300 ''0.5'' = Inl ValueError"
    by (simp add: py_int_eval)
  have c1: "param_value (Some ''page_size'') \<lparr>query_params = [''page_size'' \<mapsto> ''0.5'']\<rparr>
              = Some ''0.5''"
    by (simp add: param_value_def)
  have a3: "py_isalpha ''abc'' \<or> (\<exists>e. py_int 4300 ''abc'' = Inl e)"
    using a2 by simp
  have b3: "py_isalpha ''0.5'' \<or> (\<exists>e. py_int 4300 ''0.5'' = Inl e)"
    using b2 by simp
  note ta = unparsable_gives_default [OF a1 a3,
      where lo = DefaultLimitOffsetPagination
        and pn = DefaultPageNumberPagination and cu = DefaultCursorPagination]
  note tb = unparsable_gives_default [OF b1 b3,
      where lo = DefaultLimitOffsetPagination
        and pn = DefaultPageNumberPagination and cu = DefaultCursorPagination]
  note tc = unparsable_gives_default [OF c1 b3,
      where lo = DefaultLimitOffsetPagination
        and pn = DefaultPageNumberPagination and cu = DefaultCursorPagination]
  show ?thesis
    using a2 b2 ta tb tc by (simp add: default_attrs)
qed

text \<open>
  C6. For the offset strategy, a raw value that parses to a positive integer \<open>v\<close> gives
  \<open>min (max v min_limit) max_limit\<close>. With the source's attribute values (minimum 1,
  maximum 100, default 10), \<^verbatim>\<open>50\<close> passes through unchanged and \<^verbatim>\<open>9999\<close> gives
  the upper bound 100, not the default.
\<close>
theorem get_limit_clamps_positive:
  "(param_value (limit_query_param lo) req = Some s \<and> py_int d s = Inr v \<and> 0 < v \<longrightarrow>
      get_limit d lo req = Inr (min (max v (min_limit lo)) (max_limit lo)))
   \<and> get_limit d DefaultLimitOffsetPagination \<lparr>query_params = [''limit'' \<mapsto> ''50'']\<rparr> = Inr 50
   \<and> get_limit d DefaultLimitOffsetPagination \<lparr>query_params = [''limit'' \<mapsto> ''9999'']\<rparr> = Inr 100
   \<and> default_limit DefaultLimitOffsetPagination = 10"
proof (intro conjI impI)
  assume "param_value (limit_query_param lo) req = Some s \<and> py_int d s = Inr v \<and> 0 < v"
  then show "get_limit d lo req = Inr (min (max v (min_limit lo)) (max_limit lo))"
    by (simp add: get_limit_eq)
next
  show "get_limit d DefaultLimitOffsetPagination \<lparr>query_params = [''limit'' \<mapsto> ''50'']\<rparr> = Inr 50"
    by (simp add: get_limit_eq param_value_def py_int_eval default_attrs)
next
  show "get_limit d DefaultLimitOffsetPagination \<lparr>query_params = [''limit'' \<mapsto> ''9999'']\<rparr> = Inr 100"
    by (simp add: get_limit_eq param_value_def py_int_eval default_attrs)
next
  show "default_limit DefaultLimitOffsetPagination = 10"
    by (simp add: default_attrs)
qed

text \<open>The value 3 under a minimum of 5 is raised to 5.\<close>
theorem get_limit_clamps_positive_witness:
  "param_value (limit_query_param (DefaultLimitOffsetPagination\<lparr>min_limit := 5\<rparr>))
       \<lparr>query_params = [''limit'' \<mapsto> ''3'']\<rparr> = Some ''3''
   \<and> py_int 4300 ''3'' = Inr 3 \<and> (0 :: int) < 3
   \<and> get_limit 4300 (DefaultLimitOffsetPagination\<lparr>min_limit := 5\<rparr>)
        \<lparr>query_params = [''limit'' \<mapsto> ''3'']\<rparr> = Inr 5"
proof -
  have h: "param_value (limit_query_param (DefaultLimitOffsetPagination\<lparr>min_limit := 5\<rparr>))
             \<lparr>query_params = [''limit'' \<mapsto> ''3'']\<rparr> = Some ''3''
           \<and> py_int 4300 ''3'' = Inr 3 \<and> (0 :: int) < 3"
    by (simp add: param_value_def py_int_eval default_attrs)
  have "get_limit 4300 (DefaultLimitOffsetPagination\<lparr>min_limit := 5\<rparr>)
          \<lparr>query_params = [''limit'' \<mapsto> ''3'']\<rparr>
        = Inr (min (max 3 (min_limit (DefaultLimitOffsetPagination\<lparr>min_limit := 5\<rparr>)))
                 (max_limit (DefaultLimitOffsetPagination\<lparr>min_limit := 5\<rparr>)))"
    using get_limit_clamps_positive
            [where lo = "DefaultLimitOffsetPagination\<lparr>min_limit := 5\<rparr>"
               and req = "\<lparr>query_params = [''limit'' \<mapsto> ''3'']\<rparr>"
               and s = "''3''" and d = 4300 and v = 3] h
    by blast
  then show ?thesis
    using h by (simp add: default_attrs)
qed

text \<open>
  C9. A page-number paginator and a cursor paginator with the same default page size,
  parameter name and maximum return the same result on every request.
\<close>
theorem page_size_resolvers_agree:
  assumes "page_size pn = page_size_cursor cu"
    and "page_size_query_param pn = page_size_query_param_cursor cu"
    and "max_page_size pn = max_page_size_cursor cu"
  shows "get_page_size d pn req = get_page_size_cursor d cu req"
  using assms
  by (simp add: get_page_size_eq get_page_size_cursor_eq split: option.splits sum.splits)

text \<open>The two classes as the source configures them, asked for 250.\<close>
theorem page_size_resolvers_agree_witness:
  "page_size DefaultPageNumberPagination = page_size_cursor DefaultCursorPagination
   \<and> page_size_query_param DefaultPageNumberPagination
       = page_size_query_param_cursor DefaultCursorPagination
   \<and> max_page_size DefaultPageNumberPagination = max_page_size_cursor DefaultCursorPagination
   \<and> get_page_size 4300 DefaultPageNumberPagination \<lparr>query_params = [''page_size'' \<mapsto> ''250'']\<rparr>
       = get_page_size_cursor 4300 DefaultCursorPagination
           \<lparr>query_params = [''page_size'' \<mapsto> ''250'']\<rparr>"
proof -
  have h1: "page_size DefaultPageNumberPagination = page_size_cursor DefaultCursorPagination"
    and h2: "page_size_query_param DefaultPageNumberPagination
               = page_size_query_param_cursor DefaultCursorPagination"
    and h3: "max_page_size DefaultPageNumberPagination = max_page_size_cursor DefaultCursorPagination"
    by (simp_all add: default_attrs)
  note t = page_size_resolvers_agree [OF h1 h2 h3,
      where d = 4300 and req = "\<lparr>query_params = [''page_size'' \<mapsto> ''250'']\<rparr>"]
  show ?thesis
    using h1 h2 h3 t by blast
qed

text \<open>
  C7. The page-number and the cursor strategy apply the upper bound only: a positive
  parsed value \<open>v\<close> gives \<open>min v max_page_size\<close>, and a minimum carried by the paginator
  has no effect on the result, whatever its value (so also for every value below 1). The
  offset strategy does read its minimum: with \<open>min_limit\<close> set to \<open>m\<close> the result is
  \<open>min (max v m) max_limit\<close>, and the request for 3 gives 5 under a minimum of 5 and 3
  under a minimum of 1.
\<close>
theorem page_size_ignores_minimum:
  "(param_value (page_size_query_param pn) req = Some s \<and> py_int d s = Inr v \<and> 0 < v \<longrightarrow>
      get_page_size d pn req = Inr (min v (max_page_size pn)))
   \<and> (param_value (page_size_query_param_cursor cu) req = Some s \<and> py_int d s = Inr v \<and> 0 < v \<longrightarrow>
      get_page_size_cursor d cu req = Inr (min v (max_page_size_cursor cu)))
   \<and> get_page_size d (pm\<lparr>min_page_size := m\<rparr>) req = get_page_size d pm req
   \<and> get_page_size_cursor d (cm\<lparr>min_page_size_cursor := m\<rparr>) req = get_page_size_cursor d cm req
   \<and> (param_value (limit_query_param lo) req = Some s \<and> py_int d s = Inr v \<and> 0 < v \<longrightarrow>
      get_limit d (lo\<lparr>min_limit := m\<rparr>) req = Inr (min (max v m) (max_limit lo)))
   \<and> get_limit d (DefaultLimitOffsetPagination\<lparr>min_limit := 5\<rparr>)
         \<lparr>query_params = [''limit'' \<mapsto> ''3'']\<rparr> = Inr 5
   \<and> get_limit d (DefaultLimitOffsetPagination\<lparr>min_limit := 1\<rparr>)
         \<lparr>query_params = [''limit'' \<mapsto> ''3'']\<rparr> = Inr 3"
proof (intro conjI impI)
  assume "param_value (page_size_query_param pn) req = Some s \<and> py_int d s = Inr v \<and> 0 < v"
  then show "get_page_size d pn req = Inr (min v (max_page_size pn))"
    by (simp add: get_page_size_eq)
next
  assume "param_value (page_size_query_param_cursor cu) req = Some s \<and> py_int d s = Inr v \<and> 0 < v"
  then show "get_page_size_cursor d cu req = Inr (min v (max_page_size_cursor cu))"
    by (simp add: get_page_size_cursor_eq)
next
  show "get_page_size d (pm\<lparr>min_page_size := m\<rparr>) req = get_page_size d pm req"
    by (simp add: get_page_size_eq split: option.splits sum.splits)
next
  show "get_page_size_cursor d (cm\<lparr>min_page_size_cursor := m\<rparr>) req = get_page_size_cursor d cm req"
    by (simp add: get_page_size_cursor_eq split: option.splits sum.splits)
next
  assume "param_value (limit_query_param lo) req = Some s \<and> py_int d s = Inr v \<and> 0 < v"
  then show "get_limit d (lo\<lparr>min_limit := m\<rparr>) req = Inr (min (max v m) (max_limit lo))"
    by (simp add: get_limit_eq)
next
  show "get_limit d (DefaultLimitOffsetPagination\<lparr>min_limit := 5\<rparr>)
          \<lparr>query_params = [''limit'' \<mapsto> ''3'']\<rparr> = Inr 5"
    by (simp add: get_limit_eq param_value_def py_int_eval default_attrs)
next
  show "get_limit d (DefaultLimitOffsetPagination\<lparr>min_limit := 1\<rparr>)
          \<lparr>query_params = [''limit'' \<mapsto> ''3'']\<rparr> = Inr 3"
    by (simp add: get_limit_eq param_value_def py_int_eval default_attrs)
qed

text \<open>
  The offset strategy itself cannot tell two minimums apart when neither exceeds 1: a
  value that passes the positivity test is already at least 1.
\<close>
lemma get_limit_min_below_one:
  assumes "m \<le> 1" and "m' \<le> 1"
  shows "get_limit d (lo\<lparr>min_limit := m\<rparr>) req = get_limit d (lo\<lparr>min_limit := m'\<rparr>) req"
  using assms by (simp add: get_limit_eq split: option.splits sum.splits)

text \<open>A page-number paginator whose minimum is set to \<open>- 7\<close>, asked for 3.\<close>
theorem page_size_ignores_minimum_witness:
  "param_value (page_size_query_param DefaultPageNumberPagination)
       \<lparr>query_params = [''page_size'' \<mapsto> ''3'']\<rparr> = Some ''3''
   \<and> py_int 4300 ''3'' = Inr 3 \<and> (0 :: int) < 3
   \<and> get_page_size 4300 DefaultPageNumberPagination
        \<lparr>query_params = [''page_size'' \<mapsto> ''3'']\<rparr> = Inr 3
   \<and> get_page_size 4300
        \<lparr>page_size = 10, page_size_query_param = Some ''page_size'', max_page_size = 100,
         min_page_size = - 7\<rparr>
        \<lparr>query_params = [''page_size'' \<mapsto> ''3'']\<rparr>
     = get_page_size 4300
        \<lparr>page_size = 10, page_size_query_param = Some ''page_size'', max_page_size = 100,
         min_page_size = 1\<rparr>
        \<lparr>query_params = [''page_size'' \<mapsto> ''3'']\<rparr>"
proof -
  have h: "param_value (page_size_query_param DefaultPageNumberPagination)
             \<lparr>query_params = [''page_size'' \<mapsto> ''3'']\<rparr> = Some ''3''
           \<and> py_int 4300 ''3'' = Inr 3 \<and> (0 :: int) < 3"
    by (simp add: param_value_def py_int_eval default_attrs)
  note t = page_size_ignores_minimum
             [where pn = DefaultPageNumberPagination
                and req = "\<lparr>query_params = [''page_size'' \<mapsto> ''3'']\<rparr>"
                and s = "''3''" and d = 4300 and v = 3 and m = "- 7"
                and pm = "\<lparr>page_size = 10, page_size_query_param = Some ''page_size'',
                           max_page_size = 100, min_page_size = 1\<rparr>"]
  have a: "get_page_size 4300 DefaultPageNumberPagination
             \<lparr>query_params = [''page_size'' \<mapsto> ''3'']\<rparr>
           = Inr (min 3 (max_page_size DefaultPageNumberPagination))"
    using t h by blast
  have b: "get_page_size 4300
             (\<lparr>page_size = 10, page_size_query_param = Some ''page_size'', max_page_size = 100,
               min_page_size = 1\<rparr>\<lparr>min_page_size := - 7\<rparr>)
             \<lparr>query_params = [''page_size'' \<mapsto> ''3'']\<rparr>
           = get_page_size 4300
               \<lparr>page_size = 10, page_size_query_param = Some ''page_size'', max_page_size = 100,
                min_page_size = 1\<rparr>
               \<lparr>query_params = [''page_size'' \<mapsto> ''3'']\<rparr>"
    using t by blast
  show ?thesis
    using h a b by (simp add: default_attrs)
qed

text \<open>
  C8, as stated, fails: Python integers have no range, so a 30-digit number is not
  refused by \<^verbatim>\<open>int\<close>. With the source's attribute values each resolver returns the
  upper bound 100 for it, not the default 10.
\<close>
theorem large_literal_counterexample:
  "get_limit 4300 DefaultLimitOffsetPagination
     \<lparr>query_params = [''limit'' \<mapsto> ''123456789012345678901234567890'']\<rparr> = Inr 100
   \<and> default_limit DefaultLimitOffsetPagination = 10
   \<and> get_page_size 4300 DefaultPageNumberPagination
     \<lparr>query_params = [''page_size'' \<mapsto> ''123456789012345678901234567890'']\<rparr> = Inr 100
   \<and> page_size DefaultPageNumberPagination = 10
   \<and> get_page_size_cursor 4300 DefaultCursorPagination
     \<lparr>query_params = [''page_size'' \<mapsto> ''123456789012345678901234567890'']\<rparr> = Inr 100
   \<and> page_size_cursor DefaultCursorPagination = 10"
  by (simp add: resolver_eval)

text \<open>
  C8, amended. No literal is out of range for \<^verbatim>\<open>int\<close>. A raw value made of decimal
  digits only parses to its value unless it has more than 640 digits and more digits
  than the interpreter's digit limit (when one is set). When it parses, each resolver
  clamps a positive value (\<open>get_limit\<close> to \<open>min (max v min_limit) max_limit\<close>, both
  \<open>get_page_size\<close> to \<open>min v max_page_size\<close>), so a value at or above the upper bound
  gives the upper bound, and returns its default for the value 0, which is the value of
  a string of zeros only. When \<^verbatim>\<open>int\<close> raises \<^verbatim>\<open>ValueError\<close> on a literal beyond the
  digit limit, each resolver returns its default.
\<close>

theorem large_literal_clamped:
  assumes "s \<noteq> []" and "set s \<subseteq> set ''0123456789''" and "param_value name req = Some s"
  shows "(length s \<le> 640 \<or> d = 0 \<or> length s \<le> d \<longrightarrow>
            py_int d s = Inr (decimal s) \<and> 0 \<le> decimal s
          \<and> (decimal s = 0 \<longleftrightarrow> list_all (\<lambda>c. c = CHR ''0'') s)
          \<and> (limit_query_param lo = name \<longrightarrow>
               get_limit d lo req =
                 Inr (if 0 < decimal s then min (max (decimal s) (min_limit lo)) (max_limit lo)
                      else default_limit lo))
          \<and> (page_size_query_param pn = name \<longrightarrow>
               get_page_size d pn req =
                 Inr (if 0 < decimal s then min (decimal s) (max_page_size pn) else page_size pn))
          \<and> (page_size_query_param_cursor cu = name \<longrightarrow>
               get_page_size_cursor d cu req =
                 Inr (if 0 < decimal s then min (decimal s) (max_page_size_cursor cu)
                      else page_size_cursor cu))
          \<and> (limit_query_param lo = name \<and> 0 < decimal s \<and> max_limit lo \<le> decimal s \<longrightarrow>
               get_limit d lo req = Inr (max_limit lo))
          \<and> (page_size_query_param pn = name \<and> 0 < decimal s \<and> max_page_size pn \<le> decimal s \<longrightarrow>
               get_page_size d pn req = Inr (max_page_size pn))
          \<and> (page_size_query_param_cursor cu = name \<and> 0 < decimal s
                \<and> max_page_size_cursor cu \<le> decimal s \<longrightarrow>
               get_page_size_cursor d cu req = Inr (max_page_size_cursor cu)))
       \<and> (640 < length s \<and> 0 < d \<and> d < length s \<longrightarrow>
            py_int d s = Inl ValueError
          \<and> (limit_query_param lo = name \<longrightarrow> get_limit d lo req = Inr (default_limit lo))
          \<and> (page_size_query_param pn = name \<longrightarrow> get_page_size d pn req = Inr (page_size pn))
          \<and> (page_size_query_param_cursor cu = name \<longrightarrow>
               get_page_size_cursor d cu req = Inr (page_size_cursor cu)))"
proof -
  have ds: "list_all is_digit s"
    using assms(2) by (rule digits_subset)
  note pi = py_int_all_digits [OF assms(1) ds, of d]
  have short: "py_int d s = Inr (decimal s)"
    if "length s \<le> 640 \<or> d = 0 \<or> length s \<le> d"
    using that pi by auto
  have long: "py_int d s = Inl ValueError"
    if "640 < length s \<and> 0 < d \<and> d < length s"
    using that pi by simp
  have parsed: "?thesis" if ok: "length s \<le> 640 \<or> d = 0 \<or> length s \<le> d"
  proof -
    note p = short [OF ok]
    have not_long: "\<not> (640 < length s \<and> 0 < d \<and> d < length s)"
      using ok by auto
    have l: "limit_query_param lo = name \<Longrightarrow>
               get_limit d lo req =
                 Inr (if 0 < decimal s then min (max (decimal s) (min_limit lo)) (max_limit lo)
                      else default_limit lo)"
      using assms(3) p by (simp add: get_limit_eq)
    have n: "page_size_query_param pn = name \<Longrightarrow>
               get_page_size d pn req =
                 Inr (if 0 < decimal s then min (decimal s) (max_page_size pn) else page_size pn)"
      using assms(3) p by (simp add: get_page_size_eq)
    have c: "page_size_query_param_cursor cu = name \<Longrightarrow>
               get_page_size_cursor d cu req =
                 Inr (if 0 < decimal s then min (decimal s) (max_page_size_cursor cu)
                      else page_size_cursor cu)"
      using assms(3) p by (simp add: get_page_size_cursor_eq)
    have l': "limit_query_param lo = name \<and> 0 < decimal s \<and> max_limit lo \<le> decimal s \<Longrightarrow>
               get_limit d lo req = Inr (max_limit lo)"
      using l by auto
    have n': "page_size_query_param pn = name \<and> 0 < decimal s \<and> max_page_size pn \<le> decimal s \<Longrightarrow>
               get_page_size d pn req = Inr (max_page_size pn)"
      using n by auto
    have c': "page_size_query_param_cursor cu = name \<and> 0 < decimal s
                \<and> max_page_size_cursor cu \<le> decimal s \<Longrightarrow>
               get_page_size_cursor d cu req = Inr (max_page_size_cursor cu)"
      using c by auto
    show ?thesis
      using p decimal_nonneg [OF ds] decimal_zero_iff [OF ds] l n c l' n' c' not_long
      by blast
  qed
  have refused: "?thesis" if lg: "640 < length s \<and> 0 < d \<and> d < length s"
  proof -
    note p = long [OF lg]
    have not_ok: "\<not> (length s \<le> 640 \<or> d = 0 \<or> length s \<le> d)"
      using lg by auto
    have l: "limit_query_param lo = name \<Longrightarrow> get_limit d lo req = Inr (default_limit lo)"
      using assms(3) p by (simp add: get_limit_eq)
    have n: "page_size_query_param pn = name \<Longrightarrow> get_page_size d pn req = Inr (page_size pn)"
      using assms(3) p by (simp add: get_page_size_eq)
    have c: "page_size_query_param_cursor cu = name \<Longrightarrow>
               get_page_size_cursor d cu req = Inr (page_size_cursor cu)"
      using assms(3) p by (simp add: get_page_size_cursor_eq)
    show ?thesis
      using p l n c not_ok by blast
  qed
  show ?thesis
    using parsed refused by fastforce
qed

text \<open>
  A 30-digit number, the string \<^verbatim>\<open>000\<close>, and a number of 4301 digits under the digit
  limit 4300.
\<close>

theorem large_literal_clamped_witness:
  "py_int 4300 ''123456789012345678901234567890'' = Inr 123456789012345678901234567890
   \<and> get_limit 4300 DefaultLimitOffsetPagination
        \<lparr>query_params = [''limit'' \<mapsto> ''123456789012345678901234567890'']\<rparr> = Inr 100
   \<and> get_page_size 4300 DefaultPageNumberPagination
        \<lparr>query_params = [''page_size'' \<mapsto> ''123456789012345678901234567890'']\<rparr> = Inr 100
   \<and> py_int 4300 ''000'' = Inr 0
   \<and> get_limit 4300 DefaultLimitOffsetPagination
        \<lparr>query_params = [''limit'' \<mapsto> ''000'']\<rparr> = Inr 10
   \<and> py_int 4300 (replicate 4301 (CHR ''1'')) = Inl ValueError
   \<and> get_limit 4300 DefaultLimitOffsetPagination
        \<lparr>query_params = [''limit'' \<mapsto> replicate 4301 (CHR ''1'')]\<rparr> = Inr 10"
proof -
  have a1: "''123456789012345678901234567890'' \<noteq> []"
    by simp
  have a2: "set ''123456789012345678901234567890'' \<subseteq> set ''0123456789''"
    by simp
  have a3: "param_value (Some ''limit'')
              \<lparr>query_params = [''limit'' \<mapsto> ''123456789012345678901234567890'']\<rparr>
            = Some ''123456789012345678901234567890''"
    by (simp add: param_value_def)
  have a3': "param_value (Some ''page_size'')
              \<lparr>query_params = [''page_size'' \<mapsto> ''123456789012345678901234567890'']\<rparr>
            = Some ''123456789012345678901234567890''"
    by (simp add: param_value_def)
  have a4: "length ''123456789012345678901234567890'' \<le> 640 \<or> (4300 :: nat) = 0
            \<or> length ''123456789012345678901234567890'' \<le> 4300"
    by simp
  have a5: "decimal ''123456789012345678901234567890'' = 123456789012345678901234567890"
    by (simp add: decimal_def char_class_defs)
  note ta = large_literal_clamped [OF a1 a2 a3,
      where d = 4300 and lo = DefaultLimitOffsetPagination
        and pn = DefaultPageNumberPagination and cu = DefaultCursorPagination]
  note ta' = large_literal_clamped [OF a1 a2 a3',
      where d = 4300 and lo = DefaultLimitOffsetPagination
        and pn = DefaultPageNumberPagination and cu = DefaultCursorPagination]
  have a6: "py_int 4300 ''123456789012345678901234567890'' = Inr 123456789012345678901234567890"
    using ta a4 a5 by simp
  have a7: "get_limit 4300 DefaultLimitOffsetPagination
              \<lparr>query_params = [''limit'' \<mapsto> ''123456789012345678901234567890'']\<rparr> = Inr 100"
    using ta a4 a5 by (simp add: default_attrs)
  have a8: "get_page_size 4300 DefaultPageNumberPagination
              \<lparr>query_params = [''page_size'' \<mapsto> ''123456789012345678901234567890'']\<rparr>
            = Inr 100"
    using ta' a4 a5 by (simp add: default_attrs)
  have z1: "''000'' \<noteq> []"
    by simp
  have z2: "set ''000'' \<subseteq> set ''0123456789''"
    by simp
  have z3: "param_value (Some ''limit'') \<lparr>query_params = [''limit'' \<mapsto> ''000'']\<rparr> = Some ''000''"
    by (simp add: param_value_def)
  have z4: "length ''000'' \<le> 640 \<or> (4300 :: nat) = 0 \<or> length ''000'' \<le> 4300"
    by simp
  have z5: "decimal ''000'' = 0"
    by (simp add: decimal_def char_class_defs)
  note tz = large_literal_clamped [OF z1 z2 z3,
      where d = 4300 and lo = DefaultLimitOffsetPagination
        and pn = DefaultPageNumberPagination and cu = DefaultCursorPagination]
  have z6: "py_int 4300 ''000'' = Inr 0"
    using tz z4 z5 by simp
  have z7: "get_limit 4300 DefaultLimitOffsetPagination
              \<lparr>query_params = [''limit'' \<mapsto> ''000'']\<rparr> = Inr 10"
    using tz z4 z5 by (simp add: default_attrs)
  have b1: "replicate 4301 (CHR ''1'') \<noteq> []"
    by simp
  have b2: "set (replicate 4301 (CHR ''1'')) \<subseteq> set ''0123456789''"
    by simp
  have b3: "param_value (Some ''limit'')
              \<lparr>query_params = [''limit'' \<mapsto> replicate 4301 (CHR ''1'')]\<rparr>
            = Some (replicate 4301 (CHR ''1''))"
    by (simp add: param_value_def)
  have b4: "640 < length (replicate 4301 (CHR ''1'')) \<and> (0 :: nat) < 4300
            \<and> 4300 < length (replicate 4301 (CHR ''1''))"
    by simp
  note tb = large_literal_clamped [OF b1 b2 b3,
      where d = 4300 and lo = DefaultLimitOffsetPagination
        and pn = DefaultPageNumberPagination and cu = DefaultCursorPagination]
  have b5: "py_int 4300 (replicate 4301 (CHR ''1'')) = Inl ValueError"
    using tb b4 by blast
  have b6: "get_limit 4300 DefaultLimitOffsetPagination
              \<lparr>query_params = [''limit'' \<mapsto> replicate 4301 (CHR ''1'')]\<rparr> = Inr 10"
    using tb b4 by (simp add: default_attrs)
  show ?thesis
    using a6 a7 a8 z6 z7 b5 b6 by blast
qed



end
